theory Spec2Isabelle
  imports Complex_Main
begin

section \<open>Panel locators of panel-plots (src/panels/\_locators.py)\<close>

text \<open>
  The locators compute where the panels of a rows-by-columns grid lie inside a figure.
  Lengths are floats, as the docstrings type them; they are modelled as exact reals, the
  grid shape and the panel indices as Python's unbounded integers. Every \<open>raise\<close>
  of the source, every division by zero and every integer too large to be multiplied into
  a float is a value \<open>Inl e\<close> of the result; a warning issued through
  \<open>warnings.warn\<close> is returned in a list beside the result.
\<close>

subsection \<open>Errors, messages and argument types\<close>

datatype py_error = ValueError string | ZeroDivisionError | OverflowError

text \<open>\<open>hsep\<close> and \<open>vsep\<close> are either one number or a sequence of numbers
  (the test \<open>isinstance(hsep, collections.abc.Sequence)\<close>).\<close>

datatype sep = Scalar real | Sequence "real list"

text \<open>The rectangle \<open>(x, y, width, height)\<close> in figure coordinates.\<close>

type_synonym rect = "real \<times> real \<times> real \<times> real"

definition hsep_length_msg :: string where
  \<open>hsep_length_msg =
     ''If hsep is a sequence, it must have one fewer value than the number of columns''\<close>

definition vsep_length_msg :: string where
  \<open>vsep_length_msg =
     ''If vsep is a sequence, it must have one fewer value than the number of rows''\<close>

definition order_msg :: string where
  \<open>order_msg = ''the order keyword must be either "row" or "column"''\<close>

definition no_figsize_msg :: string where
  \<open>no_figsize_msg =
     ''one or both of the "figwidth" and "figheight" keywords must be used''\<close>

definition panelratio_ignored_msg :: string where
  \<open>panelratio_ignored_msg =
     ''the "panelratio" keyword is ignored when both the "figwidth" and "figheight" keywords are used''\<close>

text \<open>The source joins the two halves of this message without a space.\<close>

definition dimensions_msg :: string where
  \<open>dimensions_msg =
     ''the specified dimensions are not large enough tolocate panels with the desired separation and padding''\<close>

definition height_msg :: string where
  \<open>height_msg =
     ''the specified figure height is not tall enough to locate panels with the desired separation and padding''\<close>

definition width_msg :: string where
  \<open>width_msg =
     ''the specified figure width is not wide enough to locate panels with the desired separation and padding''\<close>

subsection \<open>Python primitives used by the locators\<close>

text \<open>True division \<open>a / b\<close>: raises \<open>ZeroDivisionError\<close> when \<open>b\<close> is zero.\<close>

definition truediv :: "real \<Rightarrow> real \<Rightarrow> py_error + real" where
  "truediv a b = (if b = 0 then Inl ZeroDivisionError else Inr (a / b))"

text \<open>An integer that meets a float in a product is converted to a float first. The
  conversion rounds to nearest, ties to even, and raises \<open>OverflowError\<close> when the
  result would pass the largest float \<open>2 ^ 1024 - 2 ^ 971\<close>: from the halfway point
  \<open>2 ^ 1024 - 2 ^ 970\<close> on, in either sign.\<close>

definition float_overflow :: int where
  "float_overflow = 2 ^ 1024 - 2 ^ 970"

definition float_of_int :: "int \<Rightarrow> py_error + real" where
  "float_of_int n =
     (if float_overflow \<le> \<bar>n\<bar> then Inl OverflowError else Inr (real_of_int n))"

text \<open>The slice \<open>xs[:n]\<close>: a negative \<open>n\<close> counts from the end, and the slice
  never raises.\<close>

definition slice_to :: "'a list \<Rightarrow> int \<Rightarrow> 'a list" where
  "slice_to xs n =
     (if n < 0 then take (nat (int (length xs) + n)) xs else take (nat n) xs)"

text \<open>\<open>range(n)\<close>: empty when \<open>n \<le> 0\<close>.\<close>

definition py_range :: "int \<Rightarrow> int list" where
  "py_range n = [0..n - 1]"

text \<open>\<open>panelratio or 1.\<close>: \<open>None\<close> and zero are both falsy.\<close>

definition ratio_or_one :: "real option \<Rightarrow> real" where
  "ratio_or_one panelratio =
     (case panelratio of None \<Rightarrow> 1 | Some r \<Rightarrow> if r = 0 then 1 else r)"

text \<open>The separation handling that opens both \<open>PanelSizeLocator.__init__\<close> and
  \<open>FigureSizeLocator.panel_size\<close>: a sequence must have \<open>n - 1\<close> entries, a
  scalar becomes \<open>[s] * (n - 1)\<close> (the empty list when \<open>n - 1\<close> is not positive).\<close>

definition broadcast_sep :: "sep \<Rightarrow> int \<Rightarrow> string \<Rightarrow> py_error + real list" where
  "broadcast_sep s n msg =
     (case s of
        Sequence xs \<Rightarrow>
          if int (length xs) \<noteq> n - 1 then Inl (ValueError msg) else Inr xs
      | Scalar v \<Rightarrow> Inr (replicate (nat (n - 1)) v))"

text \<open>The elements a generator yields: it stops at the first call that raises.\<close>

fun until_raise :: "(py_error + 'a) list \<Rightarrow> (py_error + 'a) list" where
  "until_raise [] = []"
| "until_raise (Inl e # _) = [Inl e]"
| "until_raise (Inr v # xs) = Inr v # until_raise xs"

subsection \<open>PanelSizeLocator\<close>

record locator =
  rows :: int
  columns :: int
  panelwidth :: real
  panelheight :: real
  hsep :: "real list"
  vsep :: "real list"
  padleft :: real
  padright :: real
  padtop :: real
  padbottom :: real
  units :: string
  figwidth :: real
  figheight :: real
  panelwidth_fig :: real
  panelheight_fig :: real

text \<open>\<open>PanelSizeLocator.__init__\<close> (lines 80 to 107). The products
  \<open>self.columns * self.panelwidth\<close> and \<open>self.rows * self.panelheight\<close> convert
  the integer.\<close>

definition PanelSizeLocator_init ::
  "int \<Rightarrow> int \<Rightarrow> real \<Rightarrow> real \<Rightarrow> sep \<Rightarrow> sep \<Rightarrow> real \<Rightarrow> real \<Rightarrow> real \<Rightarrow> real \<Rightarrow> string
     \<Rightarrow> py_error + locator" where
  "PanelSizeLocator_init rows_a columns_a panelwidth_a panelheight_a hsep_a vsep_a
       padleft_a padright_a padtop_a padbottom_a units_a =
     (case broadcast_sep hsep_a columns_a hsep_length_msg of
        Inl e \<Rightarrow> Inl e
      | Inr hs \<Rightarrow>
     (case broadcast_sep vsep_a rows_a vsep_length_msg of
        Inl e \<Rightarrow> Inl e
      | Inr vs \<Rightarrow>
     (case float_of_int columns_a of
        Inl e \<Rightarrow> Inl e
      | Inr ncolumns \<Rightarrow>
     (case float_of_int rows_a of
        Inl e \<Rightarrow> Inl e
      | Inr nrows \<Rightarrow>
     (let fw = padleft_a + ncolumns * panelwidth_a + sum_list hs + padright_a;
          fh = padtop_a + nrows * panelheight_a + sum_list vs + padbottom_a
      in case truediv panelwidth_a fw of
           Inl e \<Rightarrow> Inl e
         | Inr pwf \<Rightarrow>
        (case truediv panelheight_a fh of
           Inl e \<Rightarrow> Inl e
         | Inr phf \<Rightarrow>
             Inr \<lparr> rows = rows_a, columns = columns_a,
                   panelwidth = panelwidth_a, panelheight = panelheight_a,
                   hsep = hs, vsep = vs,
                   padleft = padleft_a, padright = padright_a,
                   padtop = padtop_a, padbottom = padbottom_a,
                   units = units_a,
                   figwidth = fw, figheight = fh,
                   panelwidth_fig = pwf, panelheight_fig = phf \<rparr>))))))"

text \<open>\<open>PanelSizeLocator.panel_position\<close> (lines 161 to 166). The indices are not
  compared with the grid shape. The products \<open>self.panelwidth * column\<close> of line 161
  and \<open>self.panelheight * (row + 1)\<close> of line 163 convert the integer, in this
  order; the divisions follow.\<close>

definition panel_position :: "locator \<Rightarrow> int \<Rightarrow> int \<Rightarrow> py_error + rect" where
  "panel_position L row column =
     (case float_of_int column of
        Inl e \<Rightarrow> Inl e
      | Inr ncolumn \<Rightarrow>
     (case float_of_int (row + 1) of
        Inl e \<Rightarrow> Inl e
      | Inr nrow \<Rightarrow>
     (let x = padleft L + panelwidth L * ncolumn + sum_list (slice_to (hsep L) column);
          y = figheight L - padtop L - panelheight L * nrow
                - sum_list (slice_to (vsep L) row)
      in case truediv x (figwidth L) of
           Inl e \<Rightarrow> Inl e
         | Inr x_fig \<Rightarrow>
        (case truediv y (figheight L) of
           Inl e \<Rightarrow> Inl e
         | Inr y_fig \<Rightarrow> Inr (x_fig, y_fig, panelwidth_fig L, panelheight_fig L)))))"

text \<open>\<open>PanelSizeLocator.panel_position_iterator\<close> (lines 140 to 147). The
  dictionary lookup of \<open>order\<close> fails for any key but \<open>row\<close> and \<open>column\<close>;
  for \<open>row\<close> the generator runs over \<open>product(row_gen, col_gen)\<close> and calls
  \<open>panel_position(x[0], x[1])\<close>, for \<open>column\<close> over
  \<open>product(col_gen, row_gen)\<close> and calls \<open>panel_position(x[1], x[0])\<close>.\<close>

definition panel_position_iterator ::
  "locator \<Rightarrow> string \<Rightarrow> py_error + (py_error + rect) list" where
  "panel_position_iterator L order =
     (let row_gen = py_range (rows L);
          col_gen = py_range (columns L)
      in if order = ''row'' then
           Inr (until_raise
                  (map (\<lambda>x. panel_position L (fst x) (snd x)) (List.product row_gen col_gen)))
         else if order = ''column'' then
           Inr (until_raise
                  (map (\<lambda>x. panel_position L (snd x) (fst x)) (List.product col_gen row_gen)))
         else Inl (ValueError order_msg))"

subsection \<open>FigureSizeLocator\<close>

text \<open>\<open>FigureSizeLocator.panel_size\<close> (lines 297 to 349). The first component of
  the result lists the warnings issued, the second is the returned pair
  \<open>(panelwidth, panelheight)\<close> or the exception raised. The divisors
  \<open>float(columns)\<close> and \<open>float(rows)\<close> are written as the value of the integer:
  a grid shape within the range of a float.\<close>

definition panel_size ::
  "int \<Rightarrow> int \<Rightarrow> real option \<Rightarrow> real option \<Rightarrow> real option \<Rightarrow> sep \<Rightarrow> sep
     \<Rightarrow> real \<Rightarrow> real \<Rightarrow> real \<Rightarrow> real \<Rightarrow> string list \<times> (py_error + real \<times> real)" where
  "panel_size rows_a columns_a figwidth_a figheight_a panelratio_a hsep_a vsep_a
       padleft_a padright_a padtop_a padbottom_a =
     (if figwidth_a = None \<and> figheight_a = None then
        ([], Inl (ValueError no_figsize_msg))
      else
     (case broadcast_sep hsep_a columns_a hsep_length_msg of
        Inl e \<Rightarrow> ([], Inl e)
      | Inr hs \<Rightarrow>
     (case broadcast_sep vsep_a rows_a vsep_length_msg of
        Inl e \<Rightarrow> ([], Inl e)
      | Inr vs \<Rightarrow>
     (case figwidth_a of
        Some fw \<Rightarrow>
          (case figheight_a of
             Some fh \<Rightarrow>
               (if panelratio_a \<noteq> None then [panelratio_ignored_msg] else [],
                case truediv (fw - sum_list hs - padleft_a - padright_a)
                       (real_of_int columns_a) of
                  Inl e \<Rightarrow> Inl e
                | Inr pw \<Rightarrow>
               (case truediv (fh - sum_list vs - padtop_a - padbottom_a)
                       (real_of_int rows_a) of
                  Inl e \<Rightarrow> Inl e
                | Inr ph \<Rightarrow>
                    if pw \<le> 0 \<or> ph \<le> 0 then Inl (ValueError dimensions_msg)
                    else Inr (pw, ph)))
           | None \<Rightarrow>
               ([],
                case truediv (fw - sum_list hs - padleft_a - padright_a)
                       (real_of_int columns_a) of
                  Inl e \<Rightarrow> Inl e
                | Inr pw \<Rightarrow>
                    if pw \<le> 0 then Inl (ValueError width_msg)
                    else Inr (pw, pw / ratio_or_one panelratio_a)))
      | None \<Rightarrow>
          (case figheight_a of
             Some fh \<Rightarrow>
               ([],
                case truediv (fh - sum_list vs - padtop_a - padbottom_a)
                       (real_of_int rows_a) of
                  Inl e \<Rightarrow> Inl e
                | Inr ph \<Rightarrow>
                    if ph \<le> 0 then Inl (ValueError height_msg)
                    else Inr (ph * ratio_or_one panelratio_a, ph))
           | None \<Rightarrow> ([], Inl (ValueError no_figsize_msg)))))))"

text \<open>\<open>FigureSizeLocator.__init__\<close> (lines 233 to 241): the panel size from
  \<open>panel_size\<close>, then the constructor of \<open>PanelSizeLocator\<close>.\<close>

definition FigureSizeLocator_init ::
  "int \<Rightarrow> int \<Rightarrow> real option \<Rightarrow> real option \<Rightarrow> real option \<Rightarrow> sep \<Rightarrow> sep
     \<Rightarrow> real \<Rightarrow> real \<Rightarrow> real \<Rightarrow> real \<Rightarrow> string \<Rightarrow> string list \<times> (py_error + locator)" where
  "FigureSizeLocator_init rows_a columns_a figwidth_a figheight_a panelratio_a hsep_a vsep_a
       padleft_a padright_a padtop_a padbottom_a units_a =
     (case panel_size rows_a columns_a figwidth_a figheight_a panelratio_a hsep_a vsep_a
             padleft_a padright_a padtop_a padbottom_a of
        (ws, Inl e) \<Rightarrow> (ws, Inl e)
      | (ws, Inr (pw, ph)) \<Rightarrow>
          (ws, PanelSizeLocator_init rows_a columns_a pw ph hsep_a vsep_a
                 padleft_a padright_a padtop_a padbottom_a units_a))"


subsection \<open>The two orders of enumeration, as the specification words them\<close>

text \<open>Row-major: for each row in ascending order, all columns in ascending order.
  Column-major: for each column in ascending order, all rows in ascending order. Both
  list the pairs \<open>(row, column)\<close>.\<close>

definition row_major :: "int \<Rightarrow> int \<Rightarrow> (int \<times> int) list" where
  "row_major nrows ncolumns =
     concat (map (\<lambda>i. map (\<lambda>j. (i, j)) [0..ncolumns - 1]) [0..nrows - 1])"

definition column_major :: "int \<Rightarrow> int \<Rightarrow> (int \<times> int) list" where
  "column_major nrows ncolumns =
     concat (map (\<lambda>j. map (\<lambda>i. (i, j)) [0..nrows - 1]) [0..ncolumns - 1])"

subsection \<open>The example grid of the specification\<close>

text \<open>Two rows and three columns of panels 10 wide and 20 high, separated by 1
  horizontally and 2 vertically, with a padding of 5 on every side.\<close>

definition example_locator :: locator where
  "example_locator =
     \<lparr> rows = 2, columns = 3, panelwidth = 10, panelheight = 20, hsep = [1, 1], vsep = [2],
        padleft = 5, padright = 5, padtop = 5, padbottom = 5, units = ''mm'',
        figwidth = 42, figheight = 52, panelwidth_fig = 10 / 42, panelheight_fig = 20 / 52 \<rparr>"

section \<open>What a successful construction establishes\<close>

lemma PanelSizeLocator_init_fields:
  assumes "PanelSizeLocator_init r c pw ph hs vs pl pr pt pb u = Inr L"
  shows "rows L = r \<and> columns L = c \<and> panelwidth L = pw \<and> panelheight L = ph
         \<and> padleft L = pl \<and> padright L = pr \<and> padtop L = pt \<and> padbottom L = pb
         \<and> units L = u"
  using assms
  by (auto simp: PanelSizeLocator_init_def float_of_int_def Let_def
      split: sum.splits if_splits)



lemma PanelSizeLocator_init_fractions:
  assumes "PanelSizeLocator_init r c pw ph hs vs pl pr pt pb u = Inr L"
  shows "figwidth L \<noteq> 0 \<and> figheight L \<noteq> 0
         \<and> panelwidth_fig L = pw / figwidth L \<and> panelheight_fig L = ph / figheight L"
  using assms
  by (auto simp: PanelSizeLocator_init_def float_of_int_def Let_def truediv_def
      split: sum.splits if_splits)

text \<open>The grid shape of a locator is within the range of a float.\<close>

lemma PanelSizeLocator_init_shape:
  assumes "PanelSizeLocator_init r c pw ph hs vs pl pr pt pb u = Inr L"
  shows "\<bar>rows L\<bar> < float_overflow \<and> \<bar>columns L\<bar> < float_overflow"
  using assms
  by (auto simp: PanelSizeLocator_init_def float_of_int_def Let_def
      split: sum.splits if_splits)

lemma FigureSizeLocator_init_panel:
  assumes "FigureSizeLocator_init r c fw fh ratio hs vs pl pr pt pb u = (ws, Inr L)"
  shows "\<exists>pw ph. panel_size r c fw fh ratio hs vs pl pr pt pb = (ws, Inr (pw, ph))
           \<and> PanelSizeLocator_init r c pw ph hs vs pl pr pt pb u = Inr L"
  using assms
  by (auto simp: FigureSizeLocator_init_def split: prod.splits sum.splits)

text \<open>A locator of either class was built by the constructor of \<open>PanelSizeLocator\<close>.\<close>

lemma locator_built:
  assumes "PanelSizeLocator_init r c pw ph hs vs pl pr pt pb u = Inr L
           \<or> FigureSizeLocator_init r c fw fh ratio hs vs pl pr pt pb u = (ws, Inr L)"
  shows "\<exists>pw' ph'. PanelSizeLocator_init r c pw' ph' hs vs pl pr pt pb u = Inr L"
  using assms FigureSizeLocator_init_panel by blast

lemma example_PanelSizeLocator:
  "PanelSizeLocator_init 2 3 10 20 (Scalar 1) (Scalar 2) 5 5 5 5 ''mm'' = Inr example_locator"
  by (simp add: PanelSizeLocator_init_def broadcast_sep_def truediv_def Let_def numeral_eq_Suc
      float_of_int_def float_overflow_def example_locator_def)

section \<open>Panel positions\<close>

lemma slice_to_nonneg: "0 \<le> n \<Longrightarrow> slice_to xs n = take (nat n) xs"
  by (simp add: slice_to_def)

lemma float_of_int_small:
  "0 \<le> n \<Longrightarrow> n < float_overflow \<Longrightarrow> float_of_int n = Inr (real_of_int n)"
  by (simp add: float_of_int_def)

lemma panel_position_nonneg:
  assumes "PanelSizeLocator_init r c pw ph hs vs pl pr pt pb u = Inr L"
    and "0 \<le> row" and "0 \<le> column"
    and "row + 1 < float_overflow" and "column < float_overflow"
  shows "panel_position L row column =
     Inr ((padleft L + panelwidth L * real_of_int column
             + sum_list (take (nat column) (hsep L))) / figwidth L,
          (figheight L - padtop L - panelheight L * (real_of_int row + 1)
             - sum_list (take (nat row) (vsep L))) / figheight L,
          panelwidth L / figwidth L,
          panelheight L / figheight L)"
proof -
  from PanelSizeLocator_init_fractions [OF assms(1)] PanelSizeLocator_init_fields [OF assms(1)]
  have nz: "figwidth L \<noteq> 0" "figheight L \<noteq> 0"
    and fr: "panelwidth_fig L = panelwidth L / figwidth L"
            "panelheight_fig L = panelheight L / figheight L"
    by simp_all
  have cv: "float_of_int column = Inr (real_of_int column)"
    "float_of_int (row + 1) = Inr (real_of_int row + 1)"
    using assms(2-5) by (simp_all add: float_of_int_small)
  show ?thesis
    using nz fr assms(2,3)
    by (simp add: panel_position_def cv truediv_def slice_to_nonneg Let_def)
qed

text \<open>Indices inside the grid are within the range of a float.\<close>

lemma in_grid_small:
  assumes "PanelSizeLocator_init r c pw ph hs vs pl pr pt pb u = Inr L"
    and "row < rows L" and "column < columns L"
  shows "row + 1 < float_overflow \<and> column < float_overflow"
  using PanelSizeLocator_init_shape [OF assms(1)] assms(2,3) by linarith

text \<open>
  Claim C1. For a locator built by \<open>PanelSizeLocator\<close> and indices inside the grid,
  \<open>panel_position\<close> returns the rectangle whose \<open>x\<close> is the left padding plus
  \<open>column\<close> panel widths plus the first \<open>column\<close> horizontal separations, over the
  figure width, and whose \<open>y\<close> is the figure height minus the top padding, minus
  \<open>row + 1\<close> panel heights, minus the first \<open>row\<close> vertical separations, over the
  figure height: rows are counted downwards from the top edge of the figure.
\<close>

theorem panel_position_formula:
  assumes "PanelSizeLocator_init r c pw ph hs vs pl pr pt pb u = Inr L"
    and "0 \<le> row" and "row < rows L" and "0 \<le> column" and "column < columns L"
  shows "panel_position L row column =
     Inr ((padleft L + panelwidth L * real_of_int column
             + sum_list (take (nat column) (hsep L))) / figwidth L,
          (figheight L - padtop L - panelheight L * (real_of_int row + 1)
             - sum_list (take (nat row) (vsep L))) / figheight L,
          panelwidth_fig L,
          panelheight_fig L)"
proof -
  from in_grid_small [OF assms(1,3,5)]
  have small: "row + 1 < float_overflow" "column < float_overflow"
    by simp_all
  from panel_position_nonneg [OF assms(1,2,4) small]
    PanelSizeLocator_init_fractions [OF assms(1)] PanelSizeLocator_init_fields [OF assms(1)]
  show ?thesis by simp
qed

theorem panel_position_formula_witness:
  "panel_position example_locator 1 2 = Inr (27 / 42, 5 / 52, 10 / 42, 20 / 52)"
  using panel_position_formula [OF example_PanelSizeLocator, of 1 2]
  by (simp add: example_locator_def numeral_eq_Suc)






section \<open>The iterator over the panels\<close>

lemma until_raise_map_Inr: "until_raise (map Inr xs) = map Inr xs"
  by (induction xs) simp_all

lemma row_major_product: "row_major m n = List.product [0..m - 1] [0..n - 1]"
  by (simp add: row_major_def product_concat_map)

lemma column_major_product:
  "column_major m n = map prod.swap (List.product [0..n - 1] [0..m - 1])"
  by (simp add: column_major_def product_concat_map map_concat comp_def)

lemma set_row_major: "set (row_major m n) = {0..m - 1} \<times> {0..n - 1}"
  by (simp add: row_major_product)

lemma set_column_major: "set (column_major m n) = {0..m - 1} \<times> {0..n - 1}"
  by (auto simp: column_major_product)

lemma distinct_row_major: "distinct (row_major m n)"
  by (simp add: row_major_product distinct_product)

lemma distinct_column_major: "distinct (column_major m n)"
  by (simp add: column_major_product distinct_product distinct_map)

lemma positions_all_Inr:
  assumes b: "PanelSizeLocator_init r c pw ph hs vs pl pr pt pb u = Inr L"
    and nn: "\<forall>p\<in>set ps. 0 \<le> fst p \<and> fst p + 1 < float_overflow
                          \<and> 0 \<le> snd p \<and> snd p < float_overflow"
  shows "\<exists>rs. map (\<lambda>p. panel_position L (fst p) (snd p)) ps = map Inr rs"
  using nn
proof (induction ps)
  case Nil
  then show ?case by simp
next
  case (Cons p ps)
  then obtain rs where rs: "map (\<lambda>p. panel_position L (fst p) (snd p)) ps = map Inr rs"
    by auto
  from Cons.prems have "0 \<le> fst p" "0 \<le> snd p"
    "fst p + 1 < float_overflow" "snd p < float_overflow"
    by simp_all
  from panel_position_nonneg [OF b this]
  obtain q where "panel_position L (fst p) (snd p) = Inr q" by blast
  with rs have "map (\<lambda>p. panel_position L (fst p) (snd p)) (p # ps) = map Inr (q # rs)"
    by simp
  then show ?case by blast
qed

lemma iterator_indices:
  assumes b: "PanelSizeLocator_init r c pw ph hs vs pl pr pt pb u = Inr L"
  shows "panel_position_iterator L ''row'' =
           Inr (map (\<lambda>p. panel_position L (fst p) (snd p)) (row_major (rows L) (columns L)))"
    and "panel_position_iterator L ''column'' =
           Inr (map (\<lambda>p. panel_position L (fst p) (snd p)) (column_major (rows L) (columns L)))"
proof -
  from PanelSizeLocator_init_shape [OF b]
  have shape: "rows L < float_overflow" "columns L < float_overflow"
    by linarith+
  have "\<forall>p\<in>set (row_major (rows L) (columns L)).
          0 \<le> fst p \<and> fst p + 1 < float_overflow \<and> 0 \<le> snd p \<and> snd p < float_overflow"
    using shape by (auto simp: set_row_major)
  from positions_all_Inr [OF b this]
  obtain rs where "map (\<lambda>p. panel_position L (fst p) (snd p)) (row_major (rows L) (columns L))
                     = map Inr rs"
    by blast
  then show "panel_position_iterator L ''row'' =
           Inr (map (\<lambda>p. panel_position L (fst p) (snd p)) (row_major (rows L) (columns L)))"
    by (simp add: panel_position_iterator_def py_range_def row_major_product until_raise_map_Inr)
  have "\<forall>p\<in>set (column_major (rows L) (columns L)).
          0 \<le> fst p \<and> fst p + 1 < float_overflow \<and> 0 \<le> snd p \<and> snd p < float_overflow"
    using shape by (auto simp: set_column_major)
  from positions_all_Inr [OF b this]
  obtain rs where "map (\<lambda>p. panel_position L (fst p) (snd p))
                     (column_major (rows L) (columns L)) = map Inr rs"
    by blast
  then show "panel_position_iterator L ''column'' =
           Inr (map (\<lambda>p. panel_position L (fst p) (snd p)) (column_major (rows L) (columns L)))"
    by (simp add: panel_position_iterator_def py_range_def column_major_product
        until_raise_map_Inr comp_def)
qed

lemma example_orders:
  "row_major 2 3 = [(0, 0), (0, 1), (0, 2), (1, 0), (1, 1), (1, 2)]"
  "column_major 2 3 = [(0, 0), (1, 0), (0, 1), (1, 1), (0, 2), (1, 2)]"
  by (simp_all add: row_major_def column_major_def upto_rec1)

text \<open>
  Claim C5. For a locator of either class, \<open>panel_position_iterator\<close> yields the
  position of every pair of a row and a column of the grid exactly once: in row-major
  order for \<open>row\<close>, in column-major order for \<open>column\<close>. On a grid of two rows and
  three columns the orders are (0,0), (0,1), (0,2), (1,0), (1,1), (1,2) and
  (0,0), (1,0), (0,1), (1,1), (0,2), (1,2).
\<close>

theorem iterator_covers_grid:
  assumes "PanelSizeLocator_init r c pw ph hs vs pl pr pt pb u = Inr L
           \<or> FigureSizeLocator_init r c fw fh ratio hs vs pl pr pt pb u = (ws, Inr L)"
  shows "panel_position_iterator L ''row'' =
           Inr (map (\<lambda>p. panel_position L (fst p) (snd p)) (row_major (rows L) (columns L)))
       \<and> panel_position_iterator L ''column'' =
           Inr (map (\<lambda>p. panel_position L (fst p) (snd p)) (column_major (rows L) (columns L)))
       \<and> distinct (row_major (rows L) (columns L))
       \<and> distinct (column_major (rows L) (columns L))
       \<and> set (row_major (rows L) (columns L)) = {0..rows L - 1} \<times> {0..columns L - 1}
       \<and> set (column_major (rows L) (columns L)) = {0..rows L - 1} \<times> {0..columns L - 1}
       \<and> row_major 2 3 = [(0, 0), (0, 1), (0, 2), (1, 0), (1, 1), (1, 2)]
       \<and> column_major 2 3 = [(0, 0), (1, 0), (0, 1), (1, 1), (0, 2), (1, 2)]"
proof -
  from locator_built [OF assms] obtain pw' ph'
    where b: "PanelSizeLocator_init r c pw' ph' hs vs pl pr pt pb u = Inr L"
    by blast
  show ?thesis
    using iterator_indices [OF b]
    by (simp add: distinct_row_major distinct_column_major set_row_major set_column_major
        example_orders)
qed

theorem iterator_covers_grid_witness:
  "panel_position_iterator example_locator ''row'' =
     Inr [Inr (5 / 42, 27 / 52, 10 / 42, 20 / 52), Inr (16 / 42, 27 / 52, 10 / 42, 20 / 52),
          Inr (27 / 42, 27 / 52, 10 / 42, 20 / 52), Inr (5 / 42, 5 / 52, 10 / 42, 20 / 52),
          Inr (16 / 42, 5 / 52, 10 / 42, 20 / 52), Inr (27 / 42, 5 / 52, 10 / 42, 20 / 52)]
   \<and> panel_position_iterator example_locator ''column'' =
     Inr [Inr (5 / 42, 27 / 52, 10 / 42, 20 / 52), Inr (5 / 42, 5 / 52, 10 / 42, 20 / 52),
          Inr (16 / 42, 27 / 52, 10 / 42, 20 / 52), Inr (16 / 42, 5 / 52, 10 / 42, 20 / 52),
          Inr (27 / 42, 27 / 52, 10 / 42, 20 / 52), Inr (27 / 42, 5 / 52, 10 / 42, 20 / 52)]"
proof -
  have rc: "rows example_locator = 2" "columns example_locator = 3"
    by (simp_all add: example_locator_def)
  have pp: "panel_position example_locator 0 0 = Inr (5 / 42, 27 / 52, 10 / 42, 20 / 52)"
    "panel_position example_locator 0 1 = Inr (16 / 42, 27 / 52, 10 / 42, 20 / 52)"
    "panel_position example_locator 0 2 = Inr (27 / 42, 27 / 52, 10 / 42, 20 / 52)"
    "panel_position example_locator 1 0 = Inr (5 / 42, 5 / 52, 10 / 42, 20 / 52)"
    "panel_position example_locator 1 1 = Inr (16 / 42, 5 / 52, 10 / 42, 20 / 52)"
    "panel_position example_locator 1 2 = Inr (27 / 42, 5 / 52, 10 / 42, 20 / 52)"
    by (simp_all add: panel_position_def example_locator_def truediv_def slice_to_def Let_def
        float_of_int_def float_overflow_def numeral_eq_Suc)
  show ?thesis
    using iterator_covers_grid [of 2 3 10 20 "Scalar 1" "Scalar 2" 5 5 5 5 "''mm''"
        example_locator None None None "[]"]
      example_PanelSizeLocator
    by (simp add: rc pp)
qed



section \<open>Panel sizes for a given figure size\<close>

lemma example_panel_size:
  "panel_size 2 3 (Some 42) (Some 52) None (Scalar 1) (Scalar 2) 5 5 5 5 = ([], Inr (10, 20))"
  by (simp add: panel_size_def broadcast_sep_def truediv_def numeral_eq_Suc)

lemma example_FigureSizeLocator:
  "FigureSizeLocator_init 2 3 (Some 42) (Some 52) None (Scalar 1) (Scalar 2) 5 5 5 5 ''mm''
     = ([], Inr example_locator)"
  by (simp add: FigureSizeLocator_init_def example_panel_size example_PanelSizeLocator)

text \<open>
  Claim C3. A \<open>FigureSizeLocator\<close> given both figure dimensions is the
  \<open>PanelSizeLocator\<close> built from the panel size that \<open>panel_size\<close> derives.
  For a figure 42 wide and 52 high with two rows,
  three columns, separations 1 and 2 and paddings 5 the panels are exactly 10 wide and 20
  high, and every \<open>panel_position\<close> equals that of the \<open>PanelSizeLocator\<close> built
  with these panel dimensions.
\<close>

theorem figure_size_locator_delegates:
  "(FigureSizeLocator_init r c (Some fw) (Some fh) ratio hs vs pl pr pt pb u = (ws, Inr L) \<longrightarrow>
      (\<exists>pw ph. snd (panel_size r c (Some fw) (Some fh) ratio hs vs pl pr pt pb) = Inr (pw, ph)
          \<and> PanelSizeLocator_init r c pw ph hs vs pl pr pt pb u = Inr L))
   \<and> snd (panel_size 2 3 (Some 42) (Some 52) None (Scalar 1) (Scalar 2) 5 5 5 5) = Inr (10, 20)
   \<and> (\<exists>Lf Lp.
        snd (FigureSizeLocator_init 2 3 (Some 42) (Some 52) None (Scalar 1) (Scalar 2) 5 5 5 5
               ''mm'') = Inr Lf
        \<and> PanelSizeLocator_init 2 3 10 20 (Scalar 1) (Scalar 2) 5 5 5 5 ''mm'' = Inr Lp
        \<and> (\<forall>row column. panel_position Lf row column = panel_position Lp row column))"
proof (intro conjI impI)
  assume a: "FigureSizeLocator_init r c (Some fw) (Some fh) ratio hs vs pl pr pt pb u = (ws, Inr L)"
  from FigureSizeLocator_init_panel [OF a] obtain pw ph
    where ps: "panel_size r c (Some fw) (Some fh) ratio hs vs pl pr pt pb = (ws, Inr (pw, ph))"
      and b: "PanelSizeLocator_init r c pw ph hs vs pl pr pt pb u = Inr L"
    by blast
  from ps b
  show "\<exists>pw ph. snd (panel_size r c (Some fw) (Some fh) ratio hs vs pl pr pt pb) = Inr (pw, ph)
          \<and> PanelSizeLocator_init r c pw ph hs vs pl pr pt pb u = Inr L"
    by auto
next
  show "snd (panel_size 2 3 (Some 42) (Some 52) None (Scalar 1) (Scalar 2) 5 5 5 5) = Inr (10, 20)"
    by (simp add: example_panel_size)
next
  show "\<exists>Lf Lp.
        snd (FigureSizeLocator_init 2 3 (Some 42) (Some 52) None (Scalar 1) (Scalar 2) 5 5 5 5
               ''mm'') = Inr Lf
        \<and> PanelSizeLocator_init 2 3 10 20 (Scalar 1) (Scalar 2) 5 5 5 5 ''mm'' = Inr Lp
        \<and> (\<forall>row column. panel_position Lf row column = panel_position Lp row column)"
    by (simp add: example_FigureSizeLocator example_PanelSizeLocator)
qed

theorem figure_size_locator_delegates_witness:
  "\<exists>pw ph. snd (panel_size 2 3 (Some 42) (Some 52) None (Scalar 1) (Scalar 2) 5 5 5 5)
              = Inr (pw, ph)
     \<and> PanelSizeLocator_init 2 3 pw ph (Scalar 1) (Scalar 2) 5 5 5 5 ''mm''
              = Inr example_locator"
  using figure_size_locator_delegates [of 2 3 42 52 None "Scalar 1" "Scalar 2" 5 5 5 5 "''mm''"
      "[]" example_locator]
    example_FigureSizeLocator
  by blast





section \<open>Validation of the separations and the panel ratio\<close>












end
